theory Spec2Isabelle
  imports Main "HOL-Library.Sublist"
begin

section \<open>JavaScript values used by MongoAccountTreeItem.ts\<close>

text \<open>
  A JavaScript string is the list of its code units; \<open>length\<close> counts them, as
  \<^verbatim>\<open>String.prototype.length\<close> does. The code units are those a \<open>char\<close> holds, which
  include every character the source names. A value of type \<^verbatim>\<open>string | undefined\<close>
  (an optional property, or a \<^verbatim>\<open>string\<close> tested for falsiness) is a
  \<open>string option\<close>, with \<open>None\<close> for \<^verbatim>\<open>undefined\<close>.
\<close>

text \<open>An error object: the listing reads and assigns only its \<^verbatim>\<open>message\<close>.\<close>

record js_error =
  message :: string

text \<open>\<^verbatim>\<open>new Error(m)\<close>\<close>

definition Error :: "string \<Rightarrow> js_error" where
  "Error m = \<lparr>message = m\<rparr>"

text \<open>Truthiness of a \<^verbatim>\<open>string | undefined\<close>: neither \<^verbatim>\<open>undefined\<close> nor \<^verbatim>\<open>""\<close>.\<close>

definition truthy_string :: "string option \<Rightarrow> bool" where
  "truthy_string s = (case s of None \<Rightarrow> False | Some x \<Rightarrow> x \<noteq> [])"

text \<open>Truthiness of a \<^verbatim>\<open>boolean | undefined\<close>: only \<^verbatim>\<open>true\<close>.\<close>

definition truthy_bool :: "bool option \<Rightarrow> bool" where
  "truthy_bool b = (case b of None \<Rightarrow> False | Some x \<Rightarrow> x)"

text \<open>
  \<^verbatim>\<open>String.prototype.toLowerCase\<close>, on the letters \<^verbatim>\<open>A\<close> to \<^verbatim>\<open>Z\<close>. The source
  compares its result with the literal \<^verbatim>\<open>"admin"\<close> only, and no code unit other
  than an upper-case Latin letter is lowered to a letter of that literal (lemma
  \<open>isAdmin_iff\<close> below).
\<close>

definition toLowerChar :: "char \<Rightarrow> char" where
  "toLowerChar c =
     (if 65 \<le> (of_char c :: nat) \<and> (of_char c :: nat) \<le> 90
      then char_of ((of_char c :: nat) + 32) else c)"

definition toLowerCase :: "string \<Rightarrow> string" where
  "toLowerCase s = map toLowerChar s"

text \<open>\<^verbatim>\<open>s.includes(t)\<close>: \<open>t\<close> occurs in \<open>s\<close> as a contiguous run.\<close>

definition js_includes :: "string \<Rightarrow> string \<Rightarrow> bool" where
  "js_includes s t = sublist t s"

section \<open>Name validation\<close>

text \<open>
  \<^verbatim>\<open>validateDatabaseName\<close> (lines 122 to 134). The guard \<^verbatim>\<open>!database\<close> holds for
  \<^verbatim>\<open>undefined\<close> and for the empty string. The regular expression
  \<^verbatim>\<open>/[/\\. "$#?]/\<close> is one character class, so \<^verbatim>\<open>test\<close> asks whether some code unit
  of the name is one of its eight characters.
\<close>

definition forbiddenCharacters :: "char list" where
  "forbiddenCharacters =
     [CHR ''/'', CHR 0x5C, CHR ''.'', CHR '' '', CHR 0x22, CHR ''$'', CHR ''#'', CHR ''?'']"

definition lengthMessage :: string where
  "lengthMessage = ''Database name must be between 1 and 63 characters.''"

definition charactersMessage :: string where
  "charactersMessage =
     ''Database name cannot contain these characters - '' @ [CHR 0x60] @ ''/'' @ [CHR 0x5C]
       @ ''. '' @ [CHR 0x22] @ ''$#?'' @ [CHR 0x60]"

definition validateDatabaseName :: "string option \<Rightarrow> string option" where
  "validateDatabaseName database =
     (let min' = (1::nat); max' = (63::nat) in
      case database of
        None \<Rightarrow> Some lengthMessage
      | Some d \<Rightarrow>
          if d = [] \<or> length d < min' \<or> length d > max' then Some lengthMessage
          else if \<exists>c \<in> set d. c \<in> set forbiddenCharacters then Some charactersMessage
          else None)"

section \<open>Data model of the account node\<close>

text \<open>
  \<^verbatim>\<open>DatabaseAccountGetResults\<close> (package arm-cosmosdb): the listing reads its optional
  \<^verbatim>\<open>name\<close> only.
\<close>

record DatabaseAccountGetResults =
  name :: "string option"

text \<open>\<^verbatim>\<open>IDatabaseInfo\<close> (lines 136 to 139): both properties are optional.\<close>

record IDatabaseInfo =
  name :: "string option"
  empty :: "bool option"

text \<open>
  The fields of \<^verbatim>\<open>MongoAccountTreeItem\<close> (lines 25 to 37). \<^verbatim>\<open>connectionString\<close> is
  declared \<^verbatim>\<open>string\<close> and tested for falsiness at line 57, so a missing one is
  \<open>None\<close>; \<^verbatim>\<open>isEmulator\<close> is \<^verbatim>\<open>boolean | undefined\<close>, kept in the root.
\<close>

record MongoAccountTreeItem =
  treeItemId :: string
  label :: string
  connectionString :: "string option"
  isEmulator :: "bool option"
  databaseAccount :: "DatabaseAccountGetResults option"

text \<open>
  \<^verbatim>\<open>new MongoDatabaseTreeItem(parent, databaseName, connectionString)\<close>: the child
  node, as the constructor call that builds it.
\<close>

datatype MongoDatabaseTreeItem =
  MongoDatabaseTreeItem (parent: MongoAccountTreeItem) (databaseName: string)
    (childConnectionString: string)

section \<open>What the listing calls outside this file\<close>

text \<open>
  What happens to a client of type \<open>'c\<close>, in the order of the calls: the call of
  \<^verbatim>\<open>connectToMongoClient\<close> with its two arguments, the call of
  \<^verbatim>\<open>listDatabases\<close>, and the call of \<^verbatim>\<open>close\<close> with the way the promise it
  returns settles (\<open>None\<close>: fulfilled; \<open>Some e\<close>: rejected with \<open>e\<close>).
\<close>

datatype 'c event =
  ConnectToMongoClient string string
  | ListDatabases 'c
  | Close 'c "js_error option"

text \<open>
  The functions and constants the listing imports, as parameters. An awaited promise
  that rejects is \<open>Inl\<close> of the error, one that is fulfilled is \<open>Inr\<close> of the value.
  \<^item> \<open>connectToMongoClient\<close>: the awaited call of line 62;
  \<^item> \<open>getDatabaseNameFromConnectionString\<close>: of type \<^verbatim>\<open>string | undefined\<close>;
  \<^item> \<open>listDatabases\<close>: the awaited \<^verbatim>\<open>mongoClient.db(testDb).admin().listDatabases()\<close>,
    then its \<^verbatim>\<open>databases\<close>;
  \<^item> \<open>close\<close>: how the promise returned by \<^verbatim>\<open>mongoClient.close()\<close> settles;
  \<^item> \<open>parseError\<close>: \<^verbatim>\<open>parseError(error).message\<close>;
  \<^item> \<open>appendExtensionUserAgent\<close>: the string \<^verbatim>\<open>appendExtensionUserAgent()\<close> returns;
  \<^item> \<open>LocalConnectionDebuggingTips\<close>: the constant \<^verbatim>\<open>Links.LocalConnectionDebuggingTips\<close>;
  \<^item> \<open>nonNullError\<close>: the error \<^verbatim>\<open>nonNullProp\<close> raises for the property of that name.
\<close>

record 'c env =
  connectToMongoClient :: "string \<Rightarrow> string \<Rightarrow> js_error + 'c"
  getDatabaseNameFromConnectionString :: "string \<Rightarrow> string option"
  listDatabases :: "'c \<Rightarrow> js_error + IDatabaseInfo list"
  close :: "'c \<Rightarrow> js_error option"
  parseError :: "js_error \<Rightarrow> string"
  appendExtensionUserAgent :: string
  LocalConnectionDebuggingTips :: string
  nonNullError :: "string \<Rightarrow> js_error"

text \<open>
  Modelled from the spec: the helper \<^verbatim>\<open>nonNullProp\<close> of \<^verbatim>\<open>utils/nonNull\<close> is outside
  the file verified here. Given the value of the property and the property's name, it
  returns the value when it is neither null nor undefined and raises an error
  otherwise, so that a listing with a nameless entry fails with an error.
\<close>

definition nonNullProp :: "'c env \<Rightarrow> 'a option \<Rightarrow> string \<Rightarrow> js_error + 'a" where
  "nonNullProp env v prop = (case v of None \<Rightarrow> Inl (nonNullError env prop) | Some x \<Rightarrow> Inr x)"

section \<open>The listing: loadMoreChildrenImpl\<close>

text \<open>
  Line 62, second argument:
  \<^verbatim>\<open>this.databaseAccount ? nonNullProp(this.databaseAccount, 'name') : appendExtensionUserAgent()\<close>.
\<close>

definition clientAppName :: "'c env \<Rightarrow> MongoAccountTreeItem \<Rightarrow> js_error + string" where
  "clientAppName env this =
     (case databaseAccount this of
        None \<Rightarrow> Inr (appendExtensionUserAgent env)
      | Some account \<Rightarrow> nonNullProp env (DatabaseAccountGetResults.name account) ''name'')"

text \<open>
  Lines 64 to 75: the databases to show, with the calls made to find them. With a
  database in the connection string and no emulator, that database alone, marked
  non-empty; otherwise what \<^verbatim>\<open>listDatabases\<close> returns.
\<close>

definition selectDatabases ::
  "'c env \<Rightarrow> MongoAccountTreeItem \<Rightarrow> string \<Rightarrow> 'c \<Rightarrow> (js_error + IDatabaseInfo list) \<times> 'c event list"
where
  "selectDatabases env this cs mongoClient =
     (let databaseInConnectionString = getDatabaseNameFromConnectionString env cs in
      if truthy_string databaseInConnectionString \<and> \<not> truthy_bool (isEmulator this)
      then (Inr [\<lparr>name = databaseInConnectionString, empty = Some False\<rparr>], [])
      else (listDatabases env mongoClient, [ListDatabases mongoClient]))"

text \<open>
  Line 77, the predicate of \<^verbatim>\<open>filter\<close>:
  \<^verbatim>\<open>!(database.name && database.name.toLowerCase() === "admin" && database.empty)\<close>.
\<close>

definition keepDatabase :: "IDatabaseInfo \<Rightarrow> bool" where
  "keepDatabase database =
     (\<not> (case name database of
           None \<Rightarrow> False
         | Some n \<Rightarrow> n \<noteq> [] \<and> toLowerCase n = ''admin'' \<and> truthy_bool (empty database)))"

text \<open>
  Line 78, the \<^verbatim>\<open>map\<close>: one child per entry, in order; the first entry whose
  \<^verbatim>\<open>name\<close> is missing makes \<^verbatim>\<open>nonNullProp\<close> raise, which ends the whole \<^verbatim>\<open>map\<close>.
\<close>

fun toTreeItems ::
  "'c env \<Rightarrow> MongoAccountTreeItem \<Rightarrow> string \<Rightarrow> IDatabaseInfo list \<Rightarrow> js_error + MongoDatabaseTreeItem list"
where
  "toTreeItems env this cs [] = Inr []"
| "toTreeItems env this cs (database # databases) =
     (case nonNullProp env (name database) ''name'' of
        Inl e \<Rightarrow> Inl e
      | Inr n \<Rightarrow>
          (case toTreeItems env this cs databases of
             Inl e \<Rightarrow> Inl e
           | Inr items \<Rightarrow> Inr (MongoDatabaseTreeItem this n cs # items)))"

text \<open>
  Lines 54 to 78, the \<^verbatim>\<open>try\<close> block: what it returns or throws, the value of
  \<^verbatim>\<open>mongoClient\<close> when it is left, and the calls made.
\<close>

definition tryBlock ::
  "'c env \<Rightarrow> MongoAccountTreeItem \<Rightarrow>
     (js_error + MongoDatabaseTreeItem list) \<times> 'c option \<times> 'c event list"
where
  "tryBlock env this =
     (case connectionString this of
        None \<Rightarrow> (Inl (Error ''Missing connection string''), None, [])
      | Some cs \<Rightarrow>
          if cs = [] then (Inl (Error ''Missing connection string''), None, [])
          else
            (case clientAppName env this of
               Inl e \<Rightarrow> (Inl e, None, [])
             | Inr appName \<Rightarrow>
                 (case connectToMongoClient env cs appName of
                    Inl e \<Rightarrow> (Inl e, None, [ConnectToMongoClient cs appName])
                  | Inr mongoClient \<Rightarrow>
                      (case selectDatabases env this cs mongoClient of
                         (Inl e, calls) \<Rightarrow>
                           (Inl e, Some mongoClient, ConnectToMongoClient cs appName # calls)
                       | (Inr databases, calls) \<Rightarrow>
                           (toTreeItems env this cs (filter keepDatabase databases),
                            Some mongoClient, ConnectToMongoClient cs appName # calls)))))"

text \<open>
  Lines 79 to 85, the \<^verbatim>\<open>catch\<close> clause: the error that is thrown again, its message
  rewritten for an emulator that refuses the connection.
\<close>

definition catchClause :: "'c env \<Rightarrow> MongoAccountTreeItem \<Rightarrow> js_error \<Rightarrow> js_error" where
  "catchClause env this error =
     (let message' = parseError env error in
      if truthy_bool (isEmulator this) \<and> js_includes message' ''ECONNREFUSED''
      then error\<lparr>message :=
             ''Unable to reach emulator. See '' @ LocalConnectionDebuggingTips env
               @ '' for debugging tips.'' @ [CHR 0x0A] @ message'\<rparr>
      else error)"

text \<open>
  Lines 86 to 92, the \<^verbatim>\<open>finally\<close> clause: \<^verbatim>\<open>close\<close> is called when \<^verbatim>\<open>mongoClient\<close>
  is set; the promise it returns is not awaited, so how it settles is part of the calls
  made and of nothing else.
\<close>

definition finallyClause :: "'c env \<Rightarrow> 'c option \<Rightarrow> 'c event list" where
  "finallyClause env mongoClient =
     (case mongoClient of None \<Rightarrow> [] | Some c \<Rightarrow> [Close c (close env c)])"

text \<open>
  \<^verbatim>\<open>loadMoreChildrenImpl\<close> (lines 52 to 93): how the promise it returns settles
  (\<open>Inl\<close>: rejected with the error; \<open>Inr\<close>: fulfilled with the children), and the
  calls made, in order.
\<close>

definition loadMoreChildrenImpl ::
  "'c env \<Rightarrow> MongoAccountTreeItem \<Rightarrow> (js_error + MongoDatabaseTreeItem list) \<times> 'c event list"
where
  "loadMoreChildrenImpl env this =
     (case tryBlock env this of
        (outcome, mongoClient, calls) \<Rightarrow>
          ((case outcome of
              Inl error \<Rightarrow> Inl (catchClause env this error)
            | Inr children \<Rightarrow> Inr children),
           calls @ finallyClause env mongoClient))"

section \<open>Conditions used in the properties\<close>

text \<open>
  The \<^verbatim>\<open>try\<close> block reaches line 64 with \<^verbatim>\<open>mongoClient\<close> set to \<open>c\<close>: the connection
  string \<open>cs\<close> is not empty, the client identifier \<open>app\<close> is found, and the connection
  opens.
\<close>

definition opensClient ::
  "'c env \<Rightarrow> MongoAccountTreeItem \<Rightarrow> string \<Rightarrow> string \<Rightarrow> 'c \<Rightarrow> bool"
where
  "opensClient env this cs app c =
     (connectionString this = Some cs \<and> cs \<noteq> [] \<and> clientAppName env this = Inr app
      \<and> connectToMongoClient env cs app = Inr c)"

text \<open>The connection string \<open>cs\<close> encodes the database name \<open>D\<close>.\<close>

definition encodesDatabase :: "'c env \<Rightarrow> string \<Rightarrow> string \<Rightarrow> bool" where
  "encodesDatabase env cs D = (getDatabaseNameFromConnectionString env cs = Some D \<and> D \<noteq> [])"

text \<open>The entry of a listing with the name \<open>n\<close> and the flag \<open>e\<close>.\<close>

definition entry :: "string \<times> bool option \<Rightarrow> IDatabaseInfo" where
  "entry p = \<lparr>name = Some (fst p), empty = snd p\<rparr>"

text \<open>The name \<open>n\<close> is \<^verbatim>\<open>admin\<close>, whatever the case of its letters.\<close>

definition isAdmin :: "string \<Rightarrow> bool" where
  "isAdmin n = (toLowerCase n = ''admin'')"

text \<open>
  The condition of line 65 fails: no database name is found in the connection string
  \<open>cs\<close>, or the account is an emulator, so the server is asked for its databases.
\<close>

definition asksServer :: "'c env \<Rightarrow> MongoAccountTreeItem \<Rightarrow> string \<Rightarrow> bool" where
  "asksServer env this cs =
     (isEmulator this = Some True \<or> \<not> truthy_string (getDatabaseNameFromConnectionString env cs))"

section \<open>Concrete servers and accounts\<close>

definition tipsLink :: string where
  "tipsLink = ''https://aka.ms/AA5zah5''"

definition refused :: js_error where
  "refused = Error ''connect ECONNREFUSED 127.0.0.1:10255''"

text \<open>A server that accepts the connection and lists three databases.\<close>

definition salesServer :: "nat env" where
  "salesServer =
     \<lparr>connectToMongoClient = (\<lambda>cs app. Inr 7),
      getDatabaseNameFromConnectionString =
        (\<lambda>cs. if cs = ''mongodb://host:10255/Sales'' then Some ''Sales'' else None),
      listDatabases =
        (\<lambda>c. Inr [\<lparr>name = Some ''admin'', empty = Some True\<rparr>,
                   \<lparr>name = Some ''admin'', empty = Some False\<rparr>,
                   \<lparr>name = Some ''Sales'', empty = Some False\<rparr>]),
      close = (\<lambda>c. None),
      parseError = message,
      appendExtensionUserAgent = ''vscode-cosmosdb'',
      LocalConnectionDebuggingTips = tipsLink,
      nonNullError = (\<lambda>prop. Error (''Expected value to be neither null nor undefined: '' @ prop))\<rparr>"

text \<open>The same server, refusing every connection.\<close>

definition refusingServer :: "nat env" where
  "refusingServer = salesServer\<lparr>connectToMongoClient := (\<lambda>cs app. Inl refused)\<rparr>"

text \<open>The same server, failing the listing and then the close.\<close>

definition failingListServer :: "nat env" where
  "failingListServer =
     salesServer\<lparr>listDatabases := (\<lambda>c. Inl refused), close := (\<lambda>c. Some (Error ''closed''))\<rparr>"

text \<open>The same server, listing an entry without a name.\<close>

definition namelessServer :: "nat env" where
  "namelessServer =
     salesServer\<lparr>listDatabases :=
       (\<lambda>c. Inr [\<lparr>name = Some ''Sales'', empty = Some False\<rparr>, \<lparr>name = None, empty = None\<rparr>])\<rparr>"

definition cloudAccount :: MongoAccountTreeItem where
  "cloudAccount =
     \<lparr>treeItemId = ''cloud'', label = ''cloud'',
      connectionString = Some ''mongodb://host:10255/Sales'',
      isEmulator = None, databaseAccount = None\<rparr>"

definition emulatorAccount :: MongoAccountTreeItem where
  "emulatorAccount = cloudAccount\<lparr>isEmulator := Some True\<rparr>"

definition blankAccount :: MongoAccountTreeItem where
  "blankAccount = cloudAccount\<lparr>connectionString := Some []\<rparr>"

section \<open>Shared facts\<close>

lemma truthy_bool_iff: "truthy_bool b = (b = Some True)"
  by (cases b) (auto simp: truthy_bool_def)

lemma truthy_string_iff: "truthy_string s = (\<exists>x. s = Some x \<and> x \<noteq> [])"
  by (cases s) (auto simp: truthy_string_def)

text \<open>
  Lowering a character gives a lower-case letter only for that letter and its
  upper-case form, so the test of line 77 is equality with \<^verbatim>\<open>admin\<close> up to the case
  of the five letters.
\<close>

lemma toLowerChar_eq_iff:
  assumes "97 \<le> (of_char l :: nat)" and "(of_char l :: nat) \<le> 122"
  shows "(toLowerChar c = l) = (c = l \<or> (of_char c :: nat) + 32 = of_char l)"
proof (cases "65 \<le> (of_char c :: nat) \<and> (of_char c :: nat) \<le> 90")
  case True
  then have "((of_char c :: nat) + 32) mod 256 = of_char c + 32"
    by simp
  then have "(of_char (toLowerChar c) :: nat) = of_char c + 32"
    using True by (simp add: toLowerChar_def)
  moreover have "c \<noteq> l"
    using True assms by auto
  ultimately show ?thesis
    by (metis of_char_eq_iff)
next
  case False
  then have "toLowerChar c = c"
    by (auto simp: toLowerChar_def)
  moreover have "(of_char c :: nat) + 32 \<noteq> of_char l"
    using False assms by linarith
  ultimately show ?thesis
    by simp
qed

lemma upper_unique:
  assumes "(of_char u :: nat) + 32 = of_char l"
  shows "((of_char c :: nat) + 32 = of_char l) = (c = u)"
  using assms by (metis add_right_cancel of_char_eq_iff)

lemma lower_letter:
  assumes "97 \<le> (of_char l :: nat)" and "(of_char l :: nat) \<le> 122"
    and "(of_char u :: nat) + 32 = of_char l"
  shows "(toLowerChar c = l) = (c = l \<or> c = u)"
  unfolding toLowerChar_eq_iff [OF assms(1,2)] upper_unique [OF assms(3)] by (rule refl)

lemma isAdmin_iff:
  "isAdmin n =
     (\<exists>a d m i k. n = [a, d, m, i, k]
        \<and> (a = CHR ''a'' \<or> a = CHR ''A'') \<and> (d = CHR ''d'' \<or> d = CHR ''D'')
        \<and> (m = CHR ''m'' \<or> m = CHR ''M'') \<and> (i = CHR ''i'' \<or> i = CHR ''I'')
        \<and> (k = CHR ''n'' \<or> k = CHR ''N''))"
proof -
  have a: "\<And>c. (toLowerChar c = CHR ''a'') = (c = CHR ''a'' \<or> c = CHR ''A'')"
    by (rule lower_letter) simp_all
  have d: "\<And>c. (toLowerChar c = CHR ''d'') = (c = CHR ''d'' \<or> c = CHR ''D'')"
    by (rule lower_letter) simp_all
  have m: "\<And>c. (toLowerChar c = CHR ''m'') = (c = CHR ''m'' \<or> c = CHR ''M'')"
    by (rule lower_letter) simp_all
  have i: "\<And>c. (toLowerChar c = CHR ''i'') = (c = CHR ''i'' \<or> c = CHR ''I'')"
    by (rule lower_letter) simp_all
  have k: "\<And>c. (toLowerChar c = CHR ''n'') = (c = CHR ''n'' \<or> c = CHR ''N'')"
    by (rule lower_letter) simp_all
  have "(map toLowerChar n = ''admin'') =
     (\<exists>a d m i k. n = [a, d, m, i, k]
        \<and> toLowerChar a = CHR ''a'' \<and> toLowerChar d = CHR ''d'' \<and> toLowerChar m = CHR ''m''
        \<and> toLowerChar i = CHR ''i'' \<and> toLowerChar k = CHR ''n'')"
    by (simp add: map_eq_Cons_conv) blast
  then show ?thesis
    unfolding isAdmin_def toLowerCase_def a d m i k .
qed

lemma keepDatabase_iff:
  "keepDatabase d = (\<not> (\<exists>n. name d = Some n \<and> isAdmin n \<and> empty d = Some True))"
  by (cases "name d") (auto simp: keepDatabase_def isAdmin_def toLowerCase_def truthy_bool_iff)

lemma keepDatabase_entry: "keepDatabase (entry p) = (\<not> (isAdmin (fst p) \<and> snd p = Some True))"
  by (simp add: keepDatabase_iff entry_def)

lemma filter_keepDatabase_entries:
  "filter keepDatabase (map entry entries) =
     map entry (filter (\<lambda>p. \<not> (isAdmin (fst p) \<and> snd p = Some True)) entries)"
  by (induction entries) (simp_all add: keepDatabase_entry)

lemma toTreeItems_entries:
  "toTreeItems env this cs (map entry entries) =
     Inr (map (\<lambda>p. MongoDatabaseTreeItem this (fst p) cs) entries)"
  by (induction entries) (simp_all add: nonNullProp_def entry_def)

lemma toTreeItems_names:
  "toTreeItems env this cs ds = Inr items \<Longrightarrow> map (\<lambda>i. Some (databaseName i)) items = map name ds"
proof (induction ds arbitrary: items)
  case Nil
  then show ?case by simp
next
  case (Cons d ds)
  then show ?case
    by (auto simp: nonNullProp_def split: option.splits sum.splits)
qed

lemma toTreeItems_nameless:
  "d \<in> set ds \<Longrightarrow> name d = None \<Longrightarrow> toTreeItems env this cs ds = Inl (nonNullError env ''name'')"
proof (induction ds)
  case Nil
  then show ?case by simp
next
  case (Cons x ds)
  then show ?case
    by (cases "name x") (auto simp: nonNullProp_def split: sum.splits)
qed

lemma loadMoreChildrenImpl_opened:
  assumes "opensClient env this cs app c"
  shows "loadMoreChildrenImpl env this =
     (case selectDatabases env this cs c of
        (Inl e, calls) \<Rightarrow>
          (Inl (catchClause env this e),
           ConnectToMongoClient cs app # calls @ [Close c (close env c)])
      | (Inr databases, calls) \<Rightarrow>
          ((case toTreeItems env this cs (filter keepDatabase databases) of
              Inl e \<Rightarrow> Inl (catchClause env this e)
            | Inr children \<Rightarrow> Inr children),
           ConnectToMongoClient cs app # calls @ [Close c (close env c)]))"
  using assms
  by (auto simp: loadMoreChildrenImpl_def tryBlock_def opensClient_def finallyClause_def
      split: prod.splits sum.splits)

lemma selectDatabases_shortcut:
  assumes "encodesDatabase env cs D" and "isEmulator this \<noteq> Some True"
  shows "selectDatabases env this cs c = (Inr [\<lparr>name = Some D, empty = Some False\<rparr>], [])"
  using assms
  by (simp add: selectDatabases_def encodesDatabase_def truthy_string_def truthy_bool_iff)

lemma selectDatabases_list:
  assumes "isEmulator this = Some True \<or> \<not> truthy_string (getDatabaseNameFromConnectionString env cs)"
  shows "selectDatabases env this cs c = (listDatabases env c, [ListDatabases c])"
  using assms
  by (auto simp: selectDatabases_def truthy_bool_iff)

section \<open>Name validation: properties\<close>

text \<open>
  C7. Validation returns a message exactly when the name is undefined or empty, its
  length is outside 1 to 63, or it contains one of the eight forbidden characters; the
  empty name, every name of 64 characters and \<^verbatim>\<open>My/DB\<close> are rejected, and
  \<^verbatim>\<open>Sales2024\<close> is accepted.
\<close>

theorem validateDatabaseName_violation_iff:
  "(validateDatabaseName database \<noteq> None) =
     (database = None \<or> database = Some [] \<or>
      (\<exists>d. database = Some d \<and>
         (length d < 1 \<or> 63 < length d \<or>
          (\<exists>c \<in> set d. c \<in> {CHR ''/'', CHR 0x5C, CHR ''.'', CHR '' '', CHR 0x22,
                                CHR ''$'', CHR ''#'', CHR ''?''}))))
   \<and> validateDatabaseName (Some []) = Some lengthMessage
   \<and> (\<forall>d. length d = 64 \<longrightarrow> validateDatabaseName (Some d) = Some lengthMessage)
   \<and> validateDatabaseName (Some ''My/DB'') = Some charactersMessage
   \<and> validateDatabaseName (Some ''Sales2024'') = None"
proof -
  have iff: "(validateDatabaseName database \<noteq> None) =
     (database = None \<or> database = Some [] \<or>
      (\<exists>d. database = Some d \<and>
         (length d < 1 \<or> 63 < length d \<or>
          (\<exists>c \<in> set d. c \<in> {CHR ''/'', CHR 0x5C, CHR ''.'', CHR '' '', CHR 0x22,
                                CHR ''$'', CHR ''#'', CHR ''?''}))))"
    by (cases database) (auto simp: validateDatabaseName_def forbiddenCharacters_def)
  have empty: "validateDatabaseName (Some []) = Some lengthMessage"
    by (simp add: validateDatabaseName_def)
  have long: "\<forall>d. length d = 64 \<longrightarrow> validateDatabaseName (Some d) = Some lengthMessage"
    by (simp add: validateDatabaseName_def)
  have slash: "validateDatabaseName (Some ''My/DB'') = Some charactersMessage"
    by (simp add: validateDatabaseName_def forbiddenCharacters_def)
  have sales: "validateDatabaseName (Some ''Sales2024'') = None"
    by (simp add: validateDatabaseName_def forbiddenCharacters_def)
  from iff empty long slash sales show ?thesis by blast
qed

section \<open>The listing: properties\<close>

text \<open>
  C1, as amended. When the client connection opens, the connection string encodes the
  database name \<open>D\<close> and \<^verbatim>\<open>isEmulator\<close> is not true, the databases to show are exactly
  \<^verbatim>\<open>[{name: D, empty: false}]\<close>, the listing returns the one child built from it, and
  the only calls are the connection and its close: \<^verbatim>\<open>listDatabases\<close> is not called,
  whatever it would return.
\<close>

theorem loadMoreChildrenImpl_database_in_connection_string:
  assumes "opensClient env this cs app c"
    and "encodesDatabase env cs D"
    and "isEmulator this \<noteq> Some True"
  shows "selectDatabases env this cs c = (Inr [\<lparr>name = Some D, empty = Some False\<rparr>], [])
    \<and> loadMoreChildrenImpl env this =
        (Inr [MongoDatabaseTreeItem this D cs],
         [ConnectToMongoClient cs app, Close c (close env c)])
    \<and> ListDatabases c' \<notin> set (snd (loadMoreChildrenImpl env this))"
proof -
  have sel: "selectDatabases env this cs c = (Inr [\<lparr>name = Some D, empty = Some False\<rparr>], [])"
    using assms(2,3) by (rule selectDatabases_shortcut)
  have keep: "keepDatabase \<lparr>name = Some D, empty = Some False\<rparr>"
    by (simp add: keepDatabase_iff)
  have run: "loadMoreChildrenImpl env this =
        (Inr [MongoDatabaseTreeItem this D cs],
         [ConnectToMongoClient cs app, Close c (close env c)])"
    by (simp add: loadMoreChildrenImpl_opened [OF assms(1)] sel keep nonNullProp_def)
  from sel run show ?thesis by simp
qed

text \<open>
  C1, witness: the cloud account, whose connection string names \<^verbatim>\<open>Sales\<close>, on the
  server that would list three databases.
\<close>

theorem loadMoreChildrenImpl_database_in_connection_string_witness:
  "opensClient salesServer cloudAccount ''mongodb://host:10255/Sales'' ''vscode-cosmosdb'' 7
   \<and> encodesDatabase salesServer ''mongodb://host:10255/Sales'' ''Sales''
   \<and> isEmulator cloudAccount \<noteq> Some True
   \<and> loadMoreChildrenImpl salesServer cloudAccount =
       (Inr [MongoDatabaseTreeItem cloudAccount ''Sales'' ''mongodb://host:10255/Sales''],
        [ConnectToMongoClient ''mongodb://host:10255/Sales'' ''vscode-cosmosdb'',
         Close 7 None])"
proof -
  have o: "opensClient salesServer cloudAccount ''mongodb://host:10255/Sales'' ''vscode-cosmosdb'' 7"
    by (simp add: opensClient_def salesServer_def cloudAccount_def clientAppName_def)
  have d: "encodesDatabase salesServer ''mongodb://host:10255/Sales'' ''Sales''"
    by (simp add: encodesDatabase_def salesServer_def)
  have e: "isEmulator cloudAccount \<noteq> Some True"
    by (simp add: cloudAccount_def)
  have c: "close salesServer 7 = None"
    by (simp add: salesServer_def)
  from loadMoreChildrenImpl_database_in_connection_string [OF o d e] o d e c
  show ?thesis by simp
qed

text \<open>
  C1, as stated, fails where the connection does not open: the same account on the
  server that refuses the connection gets the connection error and no database.
\<close>

theorem loadMoreChildrenImpl_database_in_connection_string_counterexample:
  "connectionString cloudAccount = Some ''mongodb://host:10255/Sales''
   \<and> encodesDatabase refusingServer ''mongodb://host:10255/Sales'' ''Sales''
   \<and> isEmulator cloudAccount \<noteq> Some True
   \<and> fst (loadMoreChildrenImpl refusingServer cloudAccount) = Inl refused
   \<and> fst (loadMoreChildrenImpl refusingServer cloudAccount) \<noteq>
       Inr [MongoDatabaseTreeItem cloudAccount ''Sales'' ''mongodb://host:10255/Sales'']"
  by (simp add: loadMoreChildrenImpl_def tryBlock_def clientAppName_def catchClause_def
      finallyClause_def encodesDatabase_def refusingServer_def salesServer_def cloudAccount_def
      truthy_bool_def)

text \<open>
  C2, as amended. When the client connection opens and \<^verbatim>\<open>isEmulator\<close> is true, the
  listing calls \<^verbatim>\<open>listDatabases\<close> on the client, between the connection and its close,
  whatever name the connection string encodes.
\<close>

theorem loadMoreChildrenImpl_emulator_lists:
  assumes "opensClient env this cs app c"
    and "isEmulator this = Some True"
  shows "snd (loadMoreChildrenImpl env this) =
           [ConnectToMongoClient cs app, ListDatabases c, Close c (close env c)]
    \<and> ListDatabases c \<in> set (snd (loadMoreChildrenImpl env this))"
proof -
  have sel: "selectDatabases env this cs c = (listDatabases env c, [ListDatabases c])"
    using assms(2) by (simp add: selectDatabases_list)
  have "snd (loadMoreChildrenImpl env this) =
           [ConnectToMongoClient cs app, ListDatabases c, Close c (close env c)]"
    by (cases "listDatabases env c") (simp_all add: loadMoreChildrenImpl_opened [OF assms(1)] sel)
  then show ?thesis by simp
qed

text \<open>
  C2, witness: the emulator account, whose connection string names \<^verbatim>\<open>Sales\<close>.
\<close>

theorem loadMoreChildrenImpl_emulator_lists_witness:
  "opensClient salesServer emulatorAccount ''mongodb://host:10255/Sales'' ''vscode-cosmosdb'' 7
   \<and> isEmulator emulatorAccount = Some True
   \<and> encodesDatabase salesServer ''mongodb://host:10255/Sales'' ''Sales''
   \<and> snd (loadMoreChildrenImpl salesServer emulatorAccount) =
       [ConnectToMongoClient ''mongodb://host:10255/Sales'' ''vscode-cosmosdb'',
        ListDatabases 7, Close 7 None]"
proof -
  have o: "opensClient salesServer emulatorAccount ''mongodb://host:10255/Sales''
             ''vscode-cosmosdb'' 7"
    by (simp add: opensClient_def salesServer_def emulatorAccount_def cloudAccount_def
        clientAppName_def)
  have e: "isEmulator emulatorAccount = Some True"
    by (simp add: emulatorAccount_def)
  have d: "encodesDatabase salesServer ''mongodb://host:10255/Sales'' ''Sales''"
    by (simp add: encodesDatabase_def salesServer_def)
  have c: "close salesServer 7 = None"
    by (simp add: salesServer_def)
  from loadMoreChildrenImpl_emulator_lists [OF o e] o e d c show ?thesis by simp
qed

text \<open>
  C2, as stated, fails where the connection does not open: for the emulator account
  on the server that refuses the connection, the only call is the connection.
\<close>

theorem loadMoreChildrenImpl_emulator_lists_counterexample:
  "isEmulator emulatorAccount = Some True
   \<and> snd (loadMoreChildrenImpl refusingServer emulatorAccount) =
       [ConnectToMongoClient ''mongodb://host:10255/Sales'' ''vscode-cosmosdb'']
   \<and> ListDatabases 7 \<notin> set (snd (loadMoreChildrenImpl refusingServer emulatorAccount))"
  by (simp add: loadMoreChildrenImpl_def tryBlock_def clientAppName_def finallyClause_def
      refusingServer_def salesServer_def emulatorAccount_def cloudAccount_def)

text \<open>
  C3. For a listing \<open>dbs\<close> returned by the server, the children of a listing that
  returns are named, in the server's order, as the entries of \<open>dbs\<close> that are not both
  named \<^verbatim>\<open>admin\<close> (in any case of letters) and flagged empty; when every entry has a
  name the listing does return, with one child per such entry; and the listing of an
  empty \<^verbatim>\<open>admin\<close>, a non-empty \<^verbatim>\<open>admin\<close> and \<^verbatim>\<open>Sales\<close> gives the children
  \<^verbatim>\<open>admin\<close> and \<^verbatim>\<open>Sales\<close>.
\<close>

theorem loadMoreChildrenImpl_filters_empty_admin:
  assumes "opensClient env this cs app c"
    and "asksServer env this cs"
    and "listDatabases env c = Inr dbs"
  shows "(\<forall>children. fst (loadMoreChildrenImpl env this) = Inr children \<longrightarrow>
            map (\<lambda>i. Some (databaseName i)) children =
            map name (filter (\<lambda>d. \<not> (\<exists>n. name d = Some n \<and> isAdmin n \<and> empty d = Some True)) dbs))
    \<and> (dbs = map entry entries \<longrightarrow>
          fst (loadMoreChildrenImpl env this) =
          Inr (map (\<lambda>p. MongoDatabaseTreeItem this (fst p) cs)
                 (filter (\<lambda>p. \<not> (isAdmin (fst p) \<and> snd p = Some True)) entries)))
    \<and> (dbs = [\<lparr>name = Some ''admin'', empty = Some True\<rparr>,
               \<lparr>name = Some ''admin'', empty = Some False\<rparr>,
               \<lparr>name = Some ''Sales'', empty = Some False\<rparr>] \<longrightarrow>
          fst (loadMoreChildrenImpl env this) =
          Inr [MongoDatabaseTreeItem this ''admin'' cs, MongoDatabaseTreeItem this ''Sales'' cs])"
proof -
  have sel: "selectDatabases env this cs c = (Inr dbs, [ListDatabases c])"
    using assms(2,3) by (simp add: selectDatabases_list asksServer_def)
  have run: "fst (loadMoreChildrenImpl env this) =
      (case toTreeItems env this cs (filter keepDatabase dbs) of
         Inl e \<Rightarrow> Inl (catchClause env this e) | Inr children \<Rightarrow> Inr children)"
    by (simp add: loadMoreChildrenImpl_opened [OF assms(1)] sel)
  have kept: "filter keepDatabase dbs =
      filter (\<lambda>d. \<not> (\<exists>n. name d = Some n \<and> isAdmin n \<and> empty d = Some True)) dbs"
    by (rule filter_cong) (simp_all only: keepDatabase_iff)
  have names: "\<forall>children. fst (loadMoreChildrenImpl env this) = Inr children \<longrightarrow>
            map (\<lambda>i. Some (databaseName i)) children =
            map name (filter (\<lambda>d. \<not> (\<exists>n. name d = Some n \<and> isAdmin n \<and> empty d = Some True)) dbs)"
  proof (intro allI impI)
    fix children
    assume "fst (loadMoreChildrenImpl env this) = Inr children"
    with run have "toTreeItems env this cs (filter keepDatabase dbs) = Inr children"
      by (simp split: sum.splits)
    then have "map (\<lambda>i. Some (databaseName i)) children = map name (filter keepDatabase dbs)"
      by (rule toTreeItems_names)
    with kept show "map (\<lambda>i. Some (databaseName i)) children =
            map name (filter (\<lambda>d. \<not> (\<exists>n. name d = Some n \<and> isAdmin n \<and> empty d = Some True)) dbs)"
      by simp
  qed
  have named: "dbs = map entry entries \<longrightarrow>
          fst (loadMoreChildrenImpl env this) =
          Inr (map (\<lambda>p. MongoDatabaseTreeItem this (fst p) cs)
                 (filter (\<lambda>p. \<not> (isAdmin (fst p) \<and> snd p = Some True)) entries))"
    by (simp add: run filter_keepDatabase_entries toTreeItems_entries)
  have three: "dbs = [\<lparr>name = Some ''admin'', empty = Some True\<rparr>,
               \<lparr>name = Some ''admin'', empty = Some False\<rparr>,
               \<lparr>name = Some ''Sales'', empty = Some False\<rparr>] \<longrightarrow>
          fst (loadMoreChildrenImpl env this) =
          Inr [MongoDatabaseTreeItem this ''admin'' cs, MongoDatabaseTreeItem this ''Sales'' cs]"
    by (simp add: run keepDatabase_iff isAdmin_def toLowerCase_def toLowerChar_def nonNullProp_def)
  from names named three show ?thesis by blast
qed

text \<open>
  C3, witness: the cloud account with a connection string that names no database, on
  the server that lists an empty \<^verbatim>\<open>admin\<close>, a non-empty \<^verbatim>\<open>admin\<close> and \<^verbatim>\<open>Sales\<close>.
\<close>

theorem loadMoreChildrenImpl_filters_empty_admin_witness:
  "opensClient salesServer (cloudAccount\<lparr>connectionString := Some ''mongodb://host:10255''\<rparr>)
     ''mongodb://host:10255'' ''vscode-cosmosdb'' 7
   \<and> asksServer salesServer (cloudAccount\<lparr>connectionString := Some ''mongodb://host:10255''\<rparr>)
       ''mongodb://host:10255''
   \<and> listDatabases salesServer 7 =
       Inr (map entry [(''admin'', Some True), (''admin'', Some False), (''Sales'', Some False)])
   \<and> fst (loadMoreChildrenImpl salesServer
            (cloudAccount\<lparr>connectionString := Some ''mongodb://host:10255''\<rparr>)) =
       Inr [MongoDatabaseTreeItem (cloudAccount\<lparr>connectionString := Some ''mongodb://host:10255''\<rparr>)
              ''admin'' ''mongodb://host:10255'',
            MongoDatabaseTreeItem (cloudAccount\<lparr>connectionString := Some ''mongodb://host:10255''\<rparr>)
              ''Sales'' ''mongodb://host:10255'']"
proof -
  let ?acct = "cloudAccount\<lparr>connectionString := Some ''mongodb://host:10255''\<rparr>"
  have o: "opensClient salesServer ?acct ''mongodb://host:10255'' ''vscode-cosmosdb'' 7"
    by (simp add: opensClient_def salesServer_def cloudAccount_def clientAppName_def)
  have a: "asksServer salesServer ?acct ''mongodb://host:10255''"
    by (simp add: asksServer_def salesServer_def truthy_string_def)
  have l: "listDatabases salesServer 7 =
       Inr (map entry [(''admin'', Some True), (''admin'', Some False), (''Sales'', Some False)])"
    by (simp add: salesServer_def entry_def)
  have f: "filter (\<lambda>p. \<not> (isAdmin (fst p) \<and> snd p = Some True))
             [(''admin'', Some True), (''admin'', Some False), (''Sales'', Some False)] =
           [(''admin'', Some False), (''Sales'', Some False)]"
    by (simp add: isAdmin_def toLowerCase_def toLowerChar_def)
  from loadMoreChildrenImpl_filters_empty_admin
         [OF o a l, of "[(''admin'', Some True), (''admin'', Some False), (''Sales'', Some False)]"]
  have "fst (loadMoreChildrenImpl salesServer ?acct) =
          Inr (map (\<lambda>p. MongoDatabaseTreeItem ?acct (fst p) ''mongodb://host:10255'')
                 (filter (\<lambda>p. \<not> (isAdmin (fst p) \<and> snd p = Some True))
                    [(''admin'', Some True), (''admin'', Some False), (''Sales'', Some False)]))"
    by blast
  with f o a l show ?thesis by simp
qed

text \<open>
  C4. When the connection fails with the error \<open>e\<close>, the listing is rejected with that
  error as the \<^verbatim>\<open>catch\<close> clause leaves it. For an emulator and a text of \<open>e\<close> (its
  parsed message) that contains \<^verbatim>\<open>ECONNREFUSED\<close>, the message of the rejection
  contains the link to the debugging tips and ends with the text of \<open>e\<close>. Every error
  thrown in the \<^verbatim>\<open>try\<close> block rejects the listing: none is swallowed.
\<close>

theorem loadMoreChildrenImpl_connection_refused:
  assumes "connectionString this = Some cs" and "cs \<noteq> []"
    and "clientAppName env this = Inr app"
    and "connectToMongoClient env cs app = Inl e"
  shows "fst (loadMoreChildrenImpl env this) = Inl (catchClause env this e)
    \<and> (isEmulator this = Some True \<and> js_includes (parseError env e) ''ECONNREFUSED'' \<longrightarrow>
          js_includes (message (catchClause env this e)) (LocalConnectionDebuggingTips env)
          \<and> suffix (parseError env e) (message (catchClause env this e)))
    \<and> (\<forall>e0. fst (tryBlock env this) = Inl e0 \<longrightarrow>
          fst (loadMoreChildrenImpl env this) = Inl (catchClause env this e0))"
proof -
  have run: "fst (loadMoreChildrenImpl env this) = Inl (catchClause env this e)"
    using assms by (simp add: loadMoreChildrenImpl_def tryBlock_def)
  have msg: "isEmulator this = Some True \<and> js_includes (parseError env e) ''ECONNREFUSED'' \<longrightarrow>
          js_includes (message (catchClause env this e)) (LocalConnectionDebuggingTips env)
          \<and> suffix (parseError env e) (message (catchClause env this e))"
  proof (intro impI)
    assume h: "isEmulator this = Some True \<and> js_includes (parseError env e) ''ECONNREFUSED''"
    let ?p = "''Unable to reach emulator. See ''"
    let ?q = "'' for debugging tips.'' @ [CHR 0x0A]"
    from h have m: "message (catchClause env this e) =
        ?p @ LocalConnectionDebuggingTips env @ (?q @ parseError env e)"
      by (simp add: catchClause_def truthy_bool_iff)
    have "sublist (LocalConnectionDebuggingTips env)
            (?p @ LocalConnectionDebuggingTips env @ (?q @ parseError env e))"
      by (rule sublist_appendI)
    moreover have "suffix (parseError env e)
            ((?p @ LocalConnectionDebuggingTips env @ ?q) @ parseError env e)"
      by (rule suffix_appendI) simp
    ultimately show "js_includes (message (catchClause env this e)) (LocalConnectionDebuggingTips env)
          \<and> suffix (parseError env e) (message (catchClause env this e))"
      using m by (simp add: js_includes_def)
  qed
  have all: "\<forall>e0. fst (tryBlock env this) = Inl e0 \<longrightarrow>
          fst (loadMoreChildrenImpl env this) = Inl (catchClause env this e0)"
    by (auto simp: loadMoreChildrenImpl_def split: prod.splits)
  from run msg all show ?thesis by blast
qed

text \<open>
  C4, witness: the emulator account on the server that refuses the connection.
\<close>

theorem loadMoreChildrenImpl_connection_refused_witness:
  "connectionString emulatorAccount = Some ''mongodb://host:10255/Sales''
   \<and> clientAppName refusingServer emulatorAccount = Inr ''vscode-cosmosdb''
   \<and> connectToMongoClient refusingServer ''mongodb://host:10255/Sales'' ''vscode-cosmosdb'' = Inl refused
   \<and> isEmulator emulatorAccount = Some True
   \<and> js_includes (parseError refusingServer refused) ''ECONNREFUSED''
   \<and> fst (tryBlock refusingServer emulatorAccount) = Inl refused
   \<and> fst (loadMoreChildrenImpl refusingServer emulatorAccount) =
       Inl (Error (''Unable to reach emulator. See https://aka.ms/AA5zah5 for debugging tips.''
                   @ [CHR 0x0A] @ ''connect ECONNREFUSED 127.0.0.1:10255''))
   \<and> js_includes (message (catchClause refusingServer emulatorAccount refused)) tipsLink
   \<and> suffix ''connect ECONNREFUSED 127.0.0.1:10255''
       (message (catchClause refusingServer emulatorAccount refused))"
proof -
  have s: "connectionString emulatorAccount = Some ''mongodb://host:10255/Sales''"
    by (simp add: emulatorAccount_def cloudAccount_def)
  have n: "''mongodb://host:10255/Sales'' \<noteq> []"
    by simp
  have a: "clientAppName refusingServer emulatorAccount = Inr ''vscode-cosmosdb''"
    by (simp add: clientAppName_def refusingServer_def salesServer_def emulatorAccount_def
        cloudAccount_def)
  have c: "connectToMongoClient refusingServer ''mongodb://host:10255/Sales'' ''vscode-cosmosdb''
             = Inl refused"
    by (simp add: refusingServer_def)
  have e: "isEmulator emulatorAccount = Some True"
    by (simp add: emulatorAccount_def)
  have p: "parseError refusingServer refused = ''connect ECONNREFUSED 127.0.0.1:10255''"
    by (simp add: refusingServer_def salesServer_def refused_def Error_def)
  have i: "js_includes (parseError refusingServer refused) ''ECONNREFUSED''"
    unfolding p js_includes_def by code_simp
  have l: "LocalConnectionDebuggingTips refusingServer = tipsLink"
    by (simp add: refusingServer_def salesServer_def)
  have t: "fst (tryBlock refusingServer emulatorAccount) = Inl refused"
    using s a c by (simp add: tryBlock_def)
  have k: "catchClause refusingServer emulatorAccount refused =
       Error (''Unable to reach emulator. See https://aka.ms/AA5zah5 for debugging tips.''
                   @ [CHR 0x0A] @ ''connect ECONNREFUSED 127.0.0.1:10255'')"
  proof -
    have "catchClause refusingServer emulatorAccount refused =
       refused\<lparr>message :=
         ''Unable to reach emulator. See https://aka.ms/AA5zah5 for debugging tips.''
           @ [CHR 0x0A] @ ''connect ECONNREFUSED 127.0.0.1:10255''\<rparr>"
      using i e by (simp add: catchClause_def truthy_bool_iff p l tipsLink_def)
    then show ?thesis by (simp add: refused_def Error_def)
  qed
  from loadMoreChildrenImpl_connection_refused [OF s n a c] s a c e i t k l p
  show ?thesis by simp
qed

text \<open>
  C5. In a listing that opened the client \<open>c\<close>, the call of \<^verbatim>\<open>close\<close> on \<open>c\<close> is the
  last call made and the only call of \<^verbatim>\<open>close\<close>, whether the listing is fulfilled or
  rejected; and the way the listing settles is the same whatever way the promise of
  \<^verbatim>\<open>close\<close> settles.
\<close>

theorem loadMoreChildrenImpl_closes_client:
  "(opensClient env this cs app c \<longrightarrow>
      (\<exists>calls. snd (loadMoreChildrenImpl env this) = calls @ [Close c (close env c)]
         \<and> (\<forall>c' r. Close c' r \<notin> set calls)))
   \<and> fst (loadMoreChildrenImpl (env\<lparr>close := closing\<rparr>) this) = fst (loadMoreChildrenImpl env this)"
proof -
  have last: "opensClient env this cs app c \<longrightarrow>
      (\<exists>calls. snd (loadMoreChildrenImpl env this) = calls @ [Close c (close env c)]
         \<and> (\<forall>c' r. Close c' r \<notin> set calls))"
  proof
    assume o: "opensClient env this cs app c"
    obtain r calls where sel: "selectDatabases env this cs c = (r, calls)"
      by (cases "selectDatabases env this cs c")
    then have calls: "calls = [] \<or> calls = [ListDatabases c]"
      by (auto simp: selectDatabases_def Let_def split: if_splits)
    have "snd (loadMoreChildrenImpl env this) =
            (ConnectToMongoClient cs app # calls) @ [Close c (close env c)]"
      by (cases r) (simp_all add: loadMoreChildrenImpl_opened [OF o] sel)
    moreover from calls have "\<forall>c' r. Close c' r \<notin> set (ConnectToMongoClient cs app # calls)"
      by auto
    ultimately show "\<exists>calls. snd (loadMoreChildrenImpl env this) = calls @ [Close c (close env c)]
         \<and> (\<forall>c' r. Close c' r \<notin> set calls)"
      by blast
  qed
  have t: "tryBlock (env\<lparr>close := closing\<rparr>) this = tryBlock env this"
  proof -
    have s: "\<And>x y. selectDatabases (env\<lparr>close := closing\<rparr>) this x y = selectDatabases env this x y"
      by (simp add: selectDatabases_def Let_def)
    have m: "\<And>x ds. toTreeItems (env\<lparr>close := closing\<rparr>) this x ds = toTreeItems env this x ds"
    proof -
      fix x ds
      show "toTreeItems (env\<lparr>close := closing\<rparr>) this x ds = toTreeItems env this x ds"
        by (induction ds) (simp_all add: nonNullProp_def split: option.splits)
    qed
    have a: "clientAppName (env\<lparr>close := closing\<rparr>) this = clientAppName env this"
      by (simp add: clientAppName_def nonNullProp_def split: option.splits)
    have n: "connectToMongoClient (env\<lparr>close := closing\<rparr>) = connectToMongoClient env"
      by simp
    show ?thesis
      unfolding tryBlock_def a n s m by (rule refl)
  qed
  have k: "\<And>e. catchClause (env\<lparr>close := closing\<rparr>) this e = catchClause env this e"
    by (simp add: catchClause_def Let_def)
  have same: "fst (loadMoreChildrenImpl (env\<lparr>close := closing\<rparr>) this) =
      fst (loadMoreChildrenImpl env this)"
    unfolding loadMoreChildrenImpl_def t k by (simp split: prod.splits)
  from last same show ?thesis by blast
qed

text \<open>
  C5, witness: a listing that is fulfilled, and one that is rejected and whose
  \<^verbatim>\<open>close\<close> fails too; each ends with the call of \<^verbatim>\<open>close\<close>, and the rejection is
  that of the listing.
\<close>

theorem loadMoreChildrenImpl_closes_client_witness:
  "opensClient salesServer cloudAccount ''mongodb://host:10255/Sales'' ''vscode-cosmosdb'' 7
   \<and> snd (loadMoreChildrenImpl salesServer cloudAccount) =
       [ConnectToMongoClient ''mongodb://host:10255/Sales'' ''vscode-cosmosdb''] @ [Close 7 None]
   \<and> opensClient failingListServer emulatorAccount ''mongodb://host:10255/Sales''
       ''vscode-cosmosdb'' 7
   \<and> snd (loadMoreChildrenImpl failingListServer emulatorAccount) =
       [ConnectToMongoClient ''mongodb://host:10255/Sales'' ''vscode-cosmosdb'', ListDatabases 7]
         @ [Close 7 (Some (Error ''closed''))]
   \<and> fst (loadMoreChildrenImpl failingListServer emulatorAccount) =
       fst (loadMoreChildrenImpl (failingListServer\<lparr>close := (\<lambda>c. None)\<rparr>) emulatorAccount)"
proof -
  have o1: "opensClient salesServer cloudAccount ''mongodb://host:10255/Sales''
              ''vscode-cosmosdb'' 7"
    by (simp add: opensClient_def salesServer_def cloudAccount_def clientAppName_def)
  have o2: "opensClient failingListServer emulatorAccount ''mongodb://host:10255/Sales''
              ''vscode-cosmosdb'' 7"
    by (simp add: opensClient_def failingListServer_def salesServer_def emulatorAccount_def
        cloudAccount_def clientAppName_def)
  have c1: "close salesServer 7 = None"
    by (simp add: salesServer_def)
  have c2: "close failingListServer 7 = Some (Error ''closed'')"
    by (simp add: failingListServer_def)
  have s1: "snd (loadMoreChildrenImpl salesServer cloudAccount) =
       [ConnectToMongoClient ''mongodb://host:10255/Sales'' ''vscode-cosmosdb''] @ [Close 7 None]"
  proof -
    have "selectDatabases salesServer cloudAccount ''mongodb://host:10255/Sales'' 7 =
            (Inr [\<lparr>name = Some ''Sales'', empty = Some False\<rparr>], [])"
      by (simp add: selectDatabases_def salesServer_def cloudAccount_def truthy_string_def
          truthy_bool_def)
    then show ?thesis
      by (simp add: loadMoreChildrenImpl_opened [OF o1] c1)
  qed
  have s2: "snd (loadMoreChildrenImpl failingListServer emulatorAccount) =
       [ConnectToMongoClient ''mongodb://host:10255/Sales'' ''vscode-cosmosdb'', ListDatabases 7]
         @ [Close 7 (Some (Error ''closed''))]"
  proof -
    have "selectDatabases failingListServer emulatorAccount ''mongodb://host:10255/Sales'' 7 =
            (Inl refused, [ListDatabases 7])"
      by (simp add: selectDatabases_def failingListServer_def emulatorAccount_def truthy_bool_def)
    then show ?thesis
      by (simp add: loadMoreChildrenImpl_opened [OF o2] c2)
  qed
  from loadMoreChildrenImpl_closes_client
         [of salesServer cloudAccount "''mongodb://host:10255/Sales''" "''vscode-cosmosdb''" 7
            "\<lambda>c. None"]
       loadMoreChildrenImpl_closes_client
         [of failingListServer emulatorAccount "''mongodb://host:10255/Sales''"
            "''vscode-cosmosdb''" 7 "\<lambda>c. None"]
       o1 o2 s1 s2
  show ?thesis by simp
qed

text \<open>
  C6. With a connection string that is missing or empty, the listing is rejected with
  the error made at line 58 and makes no call at all: no connection is opened, nothing
  is tried again. The message of the rejection is \<^verbatim>\<open>Missing connection string\<close>,
  unless the account is an emulator and the parsed text of that error contains
  \<^verbatim>\<open>ECONNREFUSED\<close>.
\<close>

theorem loadMoreChildrenImpl_missing_connection_string:
  assumes "connectionString this = None \<or> connectionString this = Some []"
  shows "snd (loadMoreChildrenImpl env this) = []
    \<and> fst (loadMoreChildrenImpl env this) =
        Inl (catchClause env this (Error ''Missing connection string''))
    \<and> (\<not> (isEmulator this = Some True
            \<and> js_includes (parseError env (Error ''Missing connection string'')) ''ECONNREFUSED'') \<longrightarrow>
         fst (loadMoreChildrenImpl env this) = Inl (Error ''Missing connection string''))"
  using assms
  by (auto simp: loadMoreChildrenImpl_def tryBlock_def finallyClause_def catchClause_def
      truthy_bool_iff)

text \<open>
  C6, witness: the account with an empty connection string, and the one with none.
\<close>

theorem loadMoreChildrenImpl_missing_connection_string_witness:
  "connectionString blankAccount = Some []
   \<and> \<not> js_includes (parseError salesServer (Error ''Missing connection string'')) ''ECONNREFUSED''
   \<and> loadMoreChildrenImpl salesServer blankAccount = (Inl (Error ''Missing connection string''), [])
   \<and> connectionString (cloudAccount\<lparr>connectionString := None\<rparr>) = None
   \<and> loadMoreChildrenImpl salesServer (cloudAccount\<lparr>connectionString := None\<rparr>) =
       (Inl (Error ''Missing connection string''), [])"
proof -
  have b: "connectionString blankAccount = Some []"
    by (simp add: blankAccount_def)
  have n: "connectionString (cloudAccount\<lparr>connectionString := None\<rparr>) = None"
    by simp
  have p: "parseError salesServer (Error ''Missing connection string'') =
             ''Missing connection string''"
    by (simp add: salesServer_def Error_def)
  have i: "\<not> js_includes (parseError salesServer (Error ''Missing connection string''))
             ''ECONNREFUSED''"
    unfolding p js_includes_def by code_simp
  have e: "isEmulator blankAccount \<noteq> Some True"
    by (simp add: blankAccount_def cloudAccount_def)
  from loadMoreChildrenImpl_missing_connection_string [of blankAccount salesServer] b i
  have r1: "snd (loadMoreChildrenImpl salesServer blankAccount) = []
      \<and> fst (loadMoreChildrenImpl salesServer blankAccount) = Inl (Error ''Missing connection string'')"
    by blast
  from loadMoreChildrenImpl_missing_connection_string
         [of "cloudAccount\<lparr>connectionString := None\<rparr>" salesServer] n i
  have r2: "snd (loadMoreChildrenImpl salesServer (cloudAccount\<lparr>connectionString := None\<rparr>)) = []
      \<and> fst (loadMoreChildrenImpl salesServer (cloudAccount\<lparr>connectionString := None\<rparr>)) =
          Inl (Error ''Missing connection string'')"
    by blast
  from r1 r2 b n i show ?thesis by (simp add: prod_eq_iff)
qed

text \<open>
  C8, as amended. An error \<open>e\<close> of the \<^verbatim>\<open>listDatabases\<close> call rejects the listing. It
  is \<open>e\<close> unchanged, unless the account is an emulator and the text of \<open>e\<close> contains
  \<^verbatim>\<open>ECONNREFUSED\<close>; then it is \<open>e\<close> with its message replaced by the guidance for
  the emulator followed by the text of \<open>e\<close>.
\<close>

theorem loadMoreChildrenImpl_list_error:
  assumes "opensClient env this cs app c"
    and "asksServer env this cs"
    and "listDatabases env c = Inl e"
  shows "(\<not> (isEmulator this = Some True \<and> js_includes (parseError env e) ''ECONNREFUSED'') \<longrightarrow>
            fst (loadMoreChildrenImpl env this) = Inl e)
    \<and> (isEmulator this = Some True \<and> js_includes (parseError env e) ''ECONNREFUSED'' \<longrightarrow>
          fst (loadMoreChildrenImpl env this) =
          Inl (e\<lparr>message :=
                 ''Unable to reach emulator. See '' @ LocalConnectionDebuggingTips env
                   @ '' for debugging tips.'' @ [CHR 0x0A] @ parseError env e\<rparr>))"
proof -
  have sel: "selectDatabases env this cs c = (Inl e, [ListDatabases c])"
    using assms(2,3) by (simp add: selectDatabases_list asksServer_def)
  have run: "fst (loadMoreChildrenImpl env this) = Inl (catchClause env this e)"
    by (simp add: loadMoreChildrenImpl_opened [OF assms(1)] sel)
  show ?thesis
    unfolding run by (simp add: catchClause_def truthy_bool_iff Let_def)
qed

text \<open>
  C8, witness: the cloud account with a connection string that names no database, on
  the server whose listing fails; the error is passed on as it is.
\<close>

theorem loadMoreChildrenImpl_list_error_witness:
  "opensClient failingListServer (cloudAccount\<lparr>connectionString := Some ''mongodb://host:10255''\<rparr>)
     ''mongodb://host:10255'' ''vscode-cosmosdb'' 7
   \<and> asksServer failingListServer (cloudAccount\<lparr>connectionString := Some ''mongodb://host:10255''\<rparr>)
       ''mongodb://host:10255''
   \<and> listDatabases failingListServer 7 = Inl refused
   \<and> isEmulator (cloudAccount\<lparr>connectionString := Some ''mongodb://host:10255''\<rparr>) \<noteq> Some True
   \<and> fst (loadMoreChildrenImpl failingListServer
            (cloudAccount\<lparr>connectionString := Some ''mongodb://host:10255''\<rparr>)) = Inl refused"
proof -
  let ?acct = "cloudAccount\<lparr>connectionString := Some ''mongodb://host:10255''\<rparr>"
  have o: "opensClient failingListServer ?acct ''mongodb://host:10255'' ''vscode-cosmosdb'' 7"
    by (simp add: opensClient_def failingListServer_def salesServer_def cloudAccount_def
        clientAppName_def)
  have a: "asksServer failingListServer ?acct ''mongodb://host:10255''"
    by (simp add: asksServer_def failingListServer_def salesServer_def truthy_string_def)
  have l: "listDatabases failingListServer 7 = Inl refused"
    by (simp add: failingListServer_def)
  have e: "isEmulator ?acct \<noteq> Some True"
    by (simp add: cloudAccount_def)
  from loadMoreChildrenImpl_list_error [OF o a l] e
  have "fst (loadMoreChildrenImpl failingListServer ?acct) = Inl refused"
    by blast
  with o a l e show ?thesis by simp
qed

text \<open>
  C8, as stated, fails for an emulator whose listing is refused: the error of
  \<^verbatim>\<open>listDatabases\<close> reaches the caller with another message.
\<close>

theorem loadMoreChildrenImpl_list_error_counterexample:
  "isEmulator emulatorAccount = Some True
   \<and> connectToMongoClient failingListServer ''mongodb://host:10255/Sales'' ''vscode-cosmosdb'' = Inr 7
   \<and> listDatabases failingListServer 7 = Inl (Error ''connect ECONNREFUSED 127.0.0.1:10255'')
   \<and> fst (loadMoreChildrenImpl failingListServer emulatorAccount) =
       Inl (Error (''Unable to reach emulator. See https://aka.ms/AA5zah5 for debugging tips.''
                   @ [CHR 0x0A] @ ''connect ECONNREFUSED 127.0.0.1:10255''))
   \<and> fst (loadMoreChildrenImpl failingListServer emulatorAccount) \<noteq>
       Inl (Error ''connect ECONNREFUSED 127.0.0.1:10255'')"
proof -
  have e: "isEmulator emulatorAccount = Some True"
    by (simp add: emulatorAccount_def)
  have c: "connectToMongoClient failingListServer ''mongodb://host:10255/Sales''
             ''vscode-cosmosdb'' = Inr 7"
    by (simp add: failingListServer_def salesServer_def)
  have l: "listDatabases failingListServer 7 = Inl (Error ''connect ECONNREFUSED 127.0.0.1:10255'')"
    by (simp add: failingListServer_def refused_def)
  have t: "tryBlock failingListServer emulatorAccount =
      (Inl refused, Some 7,
       [ConnectToMongoClient ''mongodb://host:10255/Sales'' ''vscode-cosmosdb'', ListDatabases 7])"
    by (simp add: tryBlock_def clientAppName_def selectDatabases_def truthy_bool_def
        failingListServer_def salesServer_def emulatorAccount_def cloudAccount_def)
  have p: "parseError failingListServer refused = ''connect ECONNREFUSED 127.0.0.1:10255''"
    by (simp add: failingListServer_def salesServer_def refused_def Error_def)
  have i: "js_includes (parseError failingListServer refused) ''ECONNREFUSED''"
    unfolding p js_includes_def by code_simp
  have k0: "catchClause failingListServer emulatorAccount refused =
       refused\<lparr>message :=
         ''Unable to reach emulator. See https://aka.ms/AA5zah5 for debugging tips.''
           @ [CHR 0x0A] @ ''connect ECONNREFUSED 127.0.0.1:10255''\<rparr>"
  proof -
    have "LocalConnectionDebuggingTips failingListServer = tipsLink"
      by (simp add: failingListServer_def salesServer_def)
    with i e show ?thesis
      by (simp add: catchClause_def truthy_bool_iff p tipsLink_def)
  qed
  have k: "catchClause failingListServer emulatorAccount refused =
       Error (''Unable to reach emulator. See https://aka.ms/AA5zah5 for debugging tips.''
                   @ [CHR 0x0A] @ ''connect ECONNREFUSED 127.0.0.1:10255'')"
    unfolding k0 by (simp add: refused_def Error_def)
  have r: "fst (loadMoreChildrenImpl failingListServer emulatorAccount) =
       Inl (Error (''Unable to reach emulator. See https://aka.ms/AA5zah5 for debugging tips.''
                   @ [CHR 0x0A] @ ''connect ECONNREFUSED 127.0.0.1:10255''))"
    by (simp add: loadMoreChildrenImpl_def t k)
  have d: "fst (loadMoreChildrenImpl failingListServer emulatorAccount) \<noteq>
       Inl (Error ''connect ECONNREFUSED 127.0.0.1:10255'')"
    unfolding r by (simp add: Error_def)
  from e c l r d show ?thesis by blast
qed

text \<open>
  C10. A listing returned by the server with an entry that has no name is kept by the
  filter at that entry and rejects the listing with the error of \<^verbatim>\<open>nonNullProp\<close>: no
  list of children is returned, neither a partial one nor one without that entry.
\<close>

theorem loadMoreChildrenImpl_nameless_entry:
  assumes "opensClient env this cs app c"
    and "asksServer env this cs"
    and "listDatabases env c = Inr dbs"
    and "d \<in> set dbs" and "name d = None"
  shows "keepDatabase d
    \<and> fst (loadMoreChildrenImpl env this) = Inl (catchClause env this (nonNullError env ''name''))
    \<and> (\<forall>children. fst (loadMoreChildrenImpl env this) \<noteq> Inr children)"
proof -
  have keep: "keepDatabase d"
    using assms(5) by (simp add: keepDatabase_iff)
  with assms(4) have "d \<in> set (filter keepDatabase dbs)"
    by simp
  then have items: "toTreeItems env this cs (filter keepDatabase dbs) = Inl (nonNullError env ''name'')"
    using assms(5) by (rule toTreeItems_nameless)
  have sel: "selectDatabases env this cs c = (Inr dbs, [ListDatabases c])"
    using assms(2,3) by (simp add: selectDatabases_list asksServer_def)
  have run: "fst (loadMoreChildrenImpl env this) =
      Inl (catchClause env this (nonNullError env ''name''))"
    by (simp add: loadMoreChildrenImpl_opened [OF assms(1)] sel items)
  from keep run show ?thesis by simp
qed

text \<open>
  C10, witness: the server that lists \<^verbatim>\<open>Sales\<close> and then an entry without a name.
\<close>

theorem loadMoreChildrenImpl_nameless_entry_witness:
  "opensClient namelessServer (cloudAccount\<lparr>connectionString := Some ''mongodb://host:10255''\<rparr>)
     ''mongodb://host:10255'' ''vscode-cosmosdb'' 7
   \<and> asksServer namelessServer (cloudAccount\<lparr>connectionString := Some ''mongodb://host:10255''\<rparr>)
       ''mongodb://host:10255''
   \<and> listDatabases namelessServer 7 =
       Inr [\<lparr>name = Some ''Sales'', empty = Some False\<rparr>, \<lparr>name = None, empty = None\<rparr>]
   \<and> fst (loadMoreChildrenImpl namelessServer
            (cloudAccount\<lparr>connectionString := Some ''mongodb://host:10255''\<rparr>)) =
       Inl (Error ''Expected value to be neither null nor undefined: name'')"
proof -
  let ?acct = "cloudAccount\<lparr>connectionString := Some ''mongodb://host:10255''\<rparr>"
  have o: "opensClient namelessServer ?acct ''mongodb://host:10255'' ''vscode-cosmosdb'' 7"
    by (simp add: opensClient_def namelessServer_def salesServer_def cloudAccount_def
        clientAppName_def)
  have a: "asksServer namelessServer ?acct ''mongodb://host:10255''"
    by (simp add: asksServer_def namelessServer_def salesServer_def truthy_string_def)
  have l: "listDatabases namelessServer 7 =
       Inr [\<lparr>name = Some ''Sales'', empty = Some False\<rparr>, \<lparr>name = None, empty = None\<rparr>]"
    by (simp add: namelessServer_def)
  have m: "\<lparr>name = None, empty = None\<rparr> \<in>
             set [\<lparr>name = Some ''Sales'', empty = Some False\<rparr>, \<lparr>name = None, empty = None\<rparr>]"
    by simp
  have n: "name \<lparr>name = None, empty = None\<rparr> = None"
    by simp
  have e: "nonNullError namelessServer ''name'' =
             Error ''Expected value to be neither null nor undefined: name''"
    by (simp add: namelessServer_def salesServer_def)
  have k: "catchClause namelessServer ?acct (Error ''Expected value to be neither null nor undefined: name'')
             = Error ''Expected value to be neither null nor undefined: name''"
    by (simp add: catchClause_def truthy_bool_def cloudAccount_def)
  from loadMoreChildrenImpl_nameless_entry [OF o a l m n]
  have "fst (loadMoreChildrenImpl namelessServer ?acct) =
          Inl (catchClause namelessServer ?acct (nonNullError namelessServer ''name''))"
    by blast
  with o a l e k show ?thesis by simp
qed

text \<open>
  C7, witness: a name of 64 characters, and a name with a dot.
\<close>

theorem validateDatabaseName_violation_iff_witness:
  "length (replicate 64 (CHR ''a'')) = 64
   \<and> validateDatabaseName (Some (replicate 64 (CHR ''a''))) = Some lengthMessage
   \<and> CHR ''.'' \<in> set ''a.b''
   \<and> validateDatabaseName (Some ''a.b'') \<noteq> None"
proof -
  have l: "length (replicate 64 (CHR ''a'')) = 64"
    by simp
  from validateDatabaseName_violation_iff [of "Some ''a.b''"] l
  have long: "validateDatabaseName (Some (replicate 64 (CHR ''a''))) = Some lengthMessage"
    by blast
  have dot: "CHR ''.'' \<in> set ''a.b''"
    by simp
  have "\<exists>c \<in> set ''a.b''. c \<in> {CHR ''/'', CHR 0x5C, CHR ''.'', CHR '' '', CHR 0x22,
                                CHR ''$'', CHR ''#'', CHR ''?''}"
    by simp
  with validateDatabaseName_violation_iff [of "Some ''a.b''"]
  have "validateDatabaseName (Some ''a.b'') \<noteq> None"
    by blast
  with l long dot show ?thesis by blast
qed

end
